theory Spec2Isabelle
  imports Complex_Main
begin

section \<open>Numbers\<close>

text \<open>
  The analysis scripts compute with 64-bit floats (Python \<open>float\<close>, numpy \<open>float64\<close>).
  A value is modelled as a real number or one of the three special values. The
  operations of this section are exact on finite values: rounding, overflow to
  infinity and the sign of zero are not modelled. What is modelled is where special
  values come from and how they propagate: division by zero gives an infinity or NaN
  (numpy scalars do not raise), NaN is absorbing, and every ordered comparison with
  NaN is false. The operations of the rate estimator, further down, also model the
  range of the formats.
\<close>

datatype npfloat = Fin real | PInf | NInf | NaN

fun fneg :: "npfloat \<Rightarrow> npfloat" where
  "fneg (Fin a) = Fin (- a)"
| "fneg PInf = NInf"
| "fneg NInf = PInf"
| "fneg NaN = NaN"

fun fadd :: "npfloat \<Rightarrow> npfloat \<Rightarrow> npfloat" where
  "fadd (Fin a) (Fin b) = Fin (a + b)"
| "fadd NaN y = NaN"
| "fadd x NaN = NaN"
| "fadd PInf NInf = NaN"
| "fadd NInf PInf = NaN"
| "fadd PInf y = PInf"
| "fadd NInf y = NInf"
| "fadd x PInf = PInf"
| "fadd x NInf = NInf"

definition fsub :: "npfloat \<Rightarrow> npfloat \<Rightarrow> npfloat" where
  "fsub x y = fadd x (fneg y)"

text \<open>The sign of a value that is not NaN, with zero counted as positive.\<close>

fun fnegative :: "npfloat \<Rightarrow> bool" where
  "fnegative (Fin a) = (a < 0)"
| "fnegative NInf = True"
| "fnegative PInf = False"
| "fnegative NaN = False"

definition signed_inf :: "bool \<Rightarrow> npfloat" where
  "signed_inf negative = (if negative then NInf else PInf)"

fun fmul :: "npfloat \<Rightarrow> npfloat \<Rightarrow> npfloat" where
  "fmul (Fin a) (Fin b) = Fin (a * b)"
| "fmul NaN y = NaN"
| "fmul x NaN = NaN"
| "fmul (Fin a) y = (if a = 0 then NaN else signed_inf ((a < 0) \<noteq> fnegative y))"
| "fmul x (Fin b) = (if b = 0 then NaN else signed_inf (fnegative x \<noteq> (b < 0)))"
| "fmul x y = signed_inf (fnegative x \<noteq> fnegative y)"

fun fdiv :: "npfloat \<Rightarrow> npfloat \<Rightarrow> npfloat" where
  "fdiv (Fin a) (Fin b) =
     (if b \<noteq> 0 then Fin (a / b)
      else if a = 0 then NaN
      else signed_inf (a < 0))"
| "fdiv NaN y = NaN"
| "fdiv x NaN = NaN"
| "fdiv (Fin a) y = Fin 0"
| "fdiv x (Fin b) = signed_inf (fnegative x \<noteq> (b < 0))"
| "fdiv x y = NaN"

fun fsqrt :: "npfloat \<Rightarrow> npfloat" where
  "fsqrt (Fin a) = (if a < 0 then NaN else Fin (sqrt a))"
| "fsqrt PInf = PInf"
| "fsqrt NInf = NaN"
| "fsqrt NaN = NaN"

fun flt :: "npfloat \<Rightarrow> npfloat \<Rightarrow> bool" where
  "flt (Fin a) (Fin b) = (a < b)"
| "flt NaN y = False"
| "flt x NaN = False"
| "flt x NInf = False"
| "flt PInf y = False"
| "flt NInf y = True"
| "flt x PInf = True"

definition fgt :: "npfloat \<Rightarrow> npfloat \<Rightarrow> bool" where
  "fgt x y = flt y x"

definition fge :: "npfloat \<Rightarrow> npfloat \<Rightarrow> bool" where
  "fge x y = (x \<noteq> NaN \<and> y \<noteq> NaN \<and> \<not> flt x y)"

definition feq :: "npfloat \<Rightarrow> npfloat \<Rightarrow> bool" where
  "feq x y = (x \<noteq> NaN \<and> x = y)"

definition isnan :: "npfloat \<Rightarrow> bool" where
  "isnan x = (x = NaN)"

text \<open>
  Python's builtin \<open>max(0, rate)\<close>: the first argument is kept unless the second
  compares greater, so a NaN rate gives 0.
\<close>

definition py_max0 :: "npfloat \<Rightarrow> npfloat" where
  "py_max0 rate = (if fgt rate (Fin 0) then rate else Fin 0)"

subsection \<open>The range of float64 and of int64\<close>

text \<open>
  In the rate estimator (\<open>calculate_rates\<close>) the range of the number formats is
  modelled as well. A real result whose magnitude reaches \<open>2^1024 - 2^970\<close> rounds to
  an infinity, and one whose magnitude is at most \<open>2^-1075\<close>, half the smallest positive
  float64, rounds to 0; in between the result is kept as it is.
\<close>

definition float64 :: "real \<Rightarrow> npfloat" where
  "float64 r =
     (if 2 ^ 1024 - 2 ^ 970 \<le> \<bar>r\<bar> then signed_inf (r < 0)
      else if \<bar>r\<bar> \<le> 1 / 2 ^ 1075 then Fin 0
      else Fin r)"

definition ranged :: "npfloat \<Rightarrow> npfloat" where
  "ranged x = (case x of Fin r \<Rightarrow> float64 r | _ \<Rightarrow> x)"

text \<open>The float64 operators \<open>/\<close> and \<open>-\<close> of the rate estimator.\<close>

definition true_divide :: "npfloat \<Rightarrow> npfloat \<Rightarrow> npfloat" where
  "true_divide x y = ranged (fdiv x y)"

definition subtract :: "npfloat \<Rightarrow> npfloat \<Rightarrow> npfloat" where
  "subtract x y = ranged (fsub x y)"

text \<open>
  Integer columns hold \<open>int64\<close> values, and numpy's \<open>int64\<close> arithmetic wraps around:
  the result is reduced modulo \<open>2^64\<close> into \<open>-2^63 .. 2^63 - 1\<close>. An \<open>int64\<close> cell is
  modelled as \<open>Fin\<close> of an integral real.
\<close>

definition wrap64 :: "real \<Rightarrow> real" where
  "wrap64 r = real_of_int ((\<lfloor>r\<rfloor> + 2 ^ 63) mod 2 ^ 64 - 2 ^ 63)"

fun subtract_int64 :: "npfloat \<Rightarrow> npfloat \<Rightarrow> npfloat" where
  "subtract_int64 (Fin a) (Fin b) = Fin (wrap64 (a - b))"
| "subtract_int64 x y = fsub x y"

fun add_int64 :: "npfloat \<Rightarrow> npfloat \<Rightarrow> npfloat" where
  "add_int64 (Fin a) (Fin b) = Fin (wrap64 (a + b))"
| "add_int64 x y = fadd x y"

section \<open>Errors and data frames\<close>

datatype py_error = KeyError string | ValueError

text \<open>
  A pandas \<open>DataFrame\<close>: the column labels in order, the labels of the columns whose
  dtype is \<open>int64\<close> (the other columns are \<open>float64\<close>), and one row per episode. A row
  maps a column label to its cell; cells of labels that are not columns are never
  read (every read below is guarded by a membership test or raises \<open>KeyError\<close>).
\<close>

record frame =
  columns :: "string list"
  int_columns :: "string list"
  rows :: "(string \<Rightarrow> npfloat) list"

text \<open>\<open>df[c]\<close> as a list of cells, and \<open>df.iloc[i][c]\<close>.\<close>

definition series :: "frame \<Rightarrow> string \<Rightarrow> npfloat list" where
  "series df c = map (\<lambda>r. r c) (rows df)"

definition iloc :: "frame \<Rightarrow> nat \<Rightarrow> string \<Rightarrow> npfloat" where
  "iloc df i c = (rows df ! i) c"

text \<open>
  A row read with \<open>iloc\<close> is a series of one dtype: its cells are \<open>int64\<close> scalars when
  every column of the frame is an integer column, and \<open>float64\<close> scalars otherwise.
\<close>

definition int_rows :: "frame \<Rightarrow> bool" where
  "int_rows df = list_all (\<lambda>c. c \<in> set (int_columns df)) (columns df)"

text \<open>
  \<open>df[c] = values\<close> with one value per row: the column is added if it is new.
  \<open>assign\<close> stores float64 values, \<open>assign_int64\<close> stores int64 values.
\<close>

definition assign :: "frame \<Rightarrow> string \<Rightarrow> npfloat list \<Rightarrow> frame" where
  "assign df c vals =
     \<lparr> columns = (if c \<in> set (columns df) then columns df else columns df @ [c]),
       int_columns = removeAll c (int_columns df),
       rows = map (\<lambda>(r, v). r(c := v)) (zip (rows df) vals) \<rparr>"

definition assign_int64 :: "frame \<Rightarrow> string \<Rightarrow> npfloat list \<Rightarrow> frame" where
  "assign_int64 df c vals =
     \<lparr> columns = (if c \<in> set (columns df) then columns df else columns df @ [c]),
       int_columns = c # removeAll c (int_columns df),
       rows = map (\<lambda>(r, v). r(c := v)) (zip (rows df) vals) \<rparr>"

section \<open>Library functions (numpy and pandas)\<close>

text \<open>
  The scripts call numpy and pandas; their code is not part of the repository. Each
  function below follows the library's behaviour on the inputs the scripts give it.
\<close>

text \<open>
  \<open>Series.cumsum()\<close>: running sum that skips NaN cells (a NaN cell stays NaN). On an
  integer column the sum is an \<open>int64\<close> sum.
\<close>

fun cumsum_from :: "npfloat \<Rightarrow> npfloat list \<Rightarrow> npfloat list" where
  "cumsum_from acc [] = []"
| "cumsum_from acc (x # xs) =
     (if isnan x then NaN # cumsum_from acc xs
      else fadd acc x # cumsum_from (fadd acc x) xs)"

definition cumsum :: "npfloat list \<Rightarrow> npfloat list" where
  "cumsum xs = cumsum_from (Fin 0) xs"

fun cumsum_int64_from :: "npfloat \<Rightarrow> npfloat list \<Rightarrow> npfloat list" where
  "cumsum_int64_from acc [] = []"
| "cumsum_int64_from acc (x # xs) =
     add_int64 acc x # cumsum_int64_from (add_int64 acc x) xs"

definition cumsum_int64 :: "npfloat list \<Rightarrow> npfloat list" where
  "cumsum_int64 xs = cumsum_int64_from (Fin 0) xs"

text \<open>\<open>Series.dropna()\<close>.\<close>

definition dropna :: "npfloat list \<Rightarrow> npfloat list" where
  "dropna xs = filter (\<lambda>x. \<not> isnan x) xs"

text \<open>\<open>Series.max()\<close>: the largest cell that is not NaN; NaN when there is none.\<close>

fun max_from :: "npfloat \<Rightarrow> npfloat list \<Rightarrow> npfloat" where
  "max_from m [] = m"
| "max_from m (x # xs) = max_from (if flt m x then x else m) xs"

definition series_max :: "npfloat list \<Rightarrow> npfloat" where
  "series_max xs = (case dropna xs of [] \<Rightarrow> NaN | y # ys \<Rightarrow> max_from y ys)"

text \<open>
  \<open>np.arange(0, stop, 30)\<close>: the points \<open>0, 30, 60, ...\<close> below \<open>stop\<close>, that is
  \<open>ceil(stop / 30)\<close> of them (none when that is not positive). numpy cannot compute
  the length from a NaN stop, nor allocate an infinite one, and raises \<open>ValueError\<close>.
\<close>

definition np_arange :: "npfloat \<Rightarrow> py_error + npfloat list" where
  "np_arange stop =
     (case stop of
        Fin s \<Rightarrow> Inr (map (\<lambda>k. Fin (real k * 30)) [0..<nat \<lceil>s / 30\<rceil>])
      | _ \<Rightarrow> Inl ValueError)"

text \<open>\<open>np.mean\<close> and \<open>Series.mean()\<close> on cells without NaN: sum over count, NaN when empty.\<close>

definition fsum :: "npfloat list \<Rightarrow> npfloat" where
  "fsum xs = foldl fadd (Fin 0) xs"

definition np_mean :: "npfloat list \<Rightarrow> npfloat" where
  "np_mean xs = fdiv (fsum xs) (Fin (real (length xs)))"

subsection \<open>np.interp\<close>

text \<open>
  For each query point \<open>np.interp(x, xp, fp)\<close> searches \<open>xp\<close> with numpy's
  \<open>binary_search_with_guess\<close>, whose guess is the index found for the previous query
  (0 for the first). The search answers \<open>len\<close> for a key above the last sample point
  and \<open>-1\<close> for a key below the first; up to 4 sample points it scans them,
  \<open>for (i = 1; i < len && key >= arr[i]; ++i); return i - 1;\<close>; otherwise it tries
  the three intervals next to the guess and then bisects, first within 8 places of the
  guess when the key lies there.
\<close>

fun scan :: "npfloat \<Rightarrow> npfloat list \<Rightarrow> nat" where
  "scan key [] = 0"
| "scan key (a # arr) = (if fge key a then Suc (scan key arr) else 0)"

definition linear_search :: "npfloat \<Rightarrow> npfloat list \<Rightarrow> nat" where
  "linear_search key arr = scan key (tl arr)"

text \<open>The loop \<open>while (imin < imax)\<close> of the bisection; the value returned is \<open>imin\<close>.\<close>

function bisect :: "npfloat \<Rightarrow> npfloat list \<Rightarrow> nat \<Rightarrow> nat \<Rightarrow> nat" where
  "bisect key arr imin imax =
     (if imin < imax then
        (let imid = imin + (imax - imin) div 2 in
         if fge key (arr ! imid) then bisect key arr (imid + 1) imax
         else bisect key arr imin imid)
      else imin)"
  by pat_completeness auto
termination
  by (relation "measure (\<lambda>(key, arr, imin, imax). imax - imin)") auto

declare bisect.simps [simp del]

definition binary_search_with_guess :: "npfloat \<Rightarrow> npfloat list \<Rightarrow> int \<Rightarrow> int" where
  "binary_search_with_guess key arr guess0 =
     (let len = length arr in
      if fgt key (arr ! (len - 1)) then int len
      else if flt key (arr ! 0) then - 1
      else if len \<le> 4 then int (linear_search key arr)
      else
        let guess = nat (max 1 (min guess0 (int len - 3))) in
        if flt key (arr ! guess) then
          (if flt key (arr ! (guess - 1)) then
             int (bisect key arr
                    (if 8 < guess \<and> fge key (arr ! (guess - 8)) then guess - 8 else 0)
                    (guess - 1)) - 1
           else int guess - 1)
        else if flt key (arr ! (guess + 1)) then int guess
        else if flt key (arr ! (guess + 2)) then int guess + 1
        else
          int (bisect key arr (guess + 2)
                 (if guess + 9 < len \<and> flt key (arr ! (guess + 8)) then guess + 8 else len))
          - 1)"

text \<open>
  The value for a query \<open>x\<close> whose search gave the index \<open>j\<close>. The values left and
  right of the range are the defaults \<open>fp[0]\<close> and \<open>fp[-1]\<close>.
\<close>

definition interp_value :: "npfloat list \<Rightarrow> npfloat list \<Rightarrow> int \<Rightarrow> npfloat \<Rightarrow> npfloat" where
  "interp_value xp fp j0 x =
     (if j0 = - 1 then hd fp
      else if j0 = int (length xp) then last fp
      else
        let j = nat j0 in
        if j = length xp - 1 then fp ! j
        else if feq (xp ! j) x then fp ! j
        else
          let slope = fdiv (fsub (fp ! (j + 1)) (fp ! j)) (fsub (xp ! (j + 1)) (xp ! j));
              res = fadd (fmul slope (fsub x (xp ! j))) (fp ! j)
          in if isnan res then
               let res2 = fadd (fmul slope (fsub x (xp ! (j + 1)))) (fp ! (j + 1))
               in if isnan res2 \<and> feq (fp ! j) (fp ! (j + 1)) then fp ! j else res2
             else res)"

text \<open>A single sample point is handled apart, by comparison with that point.\<close>

definition interp_single :: "npfloat list \<Rightarrow> npfloat list \<Rightarrow> npfloat \<Rightarrow> npfloat" where
  "interp_single xp fp x =
     (if flt x (hd xp) then hd fp else if fgt x (hd xp) then last fp else hd fp)"

text \<open>The loop over the query points, with the guess \<open>j\<close> it carries along.\<close>

fun interp_loop :: "npfloat list \<Rightarrow> npfloat list \<Rightarrow> int \<Rightarrow> npfloat list \<Rightarrow> npfloat list" where
  "interp_loop xp fp j [] = []"
| "interp_loop xp fp j (x # xs) =
     (if isnan x then x # interp_loop xp fp j xs
      else
        let j' = binary_search_with_guess x xp j
        in interp_value xp fp j' x # interp_loop xp fp j' xs)"

text \<open>\<open>np.interp\<close> at one query point.\<close>

definition interp_at :: "npfloat list \<Rightarrow> npfloat list \<Rightarrow> npfloat \<Rightarrow> npfloat" where
  "interp_at xp fp x =
     (if length xp = 1 then interp_single xp fp x
      else if isnan x then x
      else interp_value xp fp (binary_search_with_guess x xp 0) x)"

definition np_interp :: "npfloat list \<Rightarrow> npfloat list \<Rightarrow> npfloat list \<Rightarrow> py_error + npfloat list" where
  "np_interp x xp fp =
     (if length xp = 0 then Inl ValueError
      else if length fp \<noteq> length xp then Inl ValueError
      else if length xp = 1 then Inr (map (interp_single xp fp) x)
      else Inr (interp_loop xp fp 0 x))"

section \<open>Compare\_results\_time\_based.py\<close>

subsection \<open>convert\_episodes\_to\_time\<close>

definition convert_episodes_to_time :: "frame \<Rightarrow> py_error + frame \<times> npfloat list" where
  "convert_episodes_to_time episode_df =
     (let df1 = (if ''GreenLightTime'' \<notin> set (columns episode_df)
                 then assign episode_df ''GreenLightTime'' (map (\<lambda>_. Fin 30) (rows episode_df))
                 else episode_df);
          df2 = (if ''GreenLightTime'' \<in> set (int_columns df1)
                 then assign_int64 df1 ''CumulativeTime''
                        (cumsum_int64 (series df1 ''GreenLightTime''))
                 else assign df1 ''CumulativeTime'' (cumsum (series df1 ''GreenLightTime'')))
      in case np_arange (series_max (series df2 ''CumulativeTime'')) of
           Inl e \<Rightarrow> Inl e
         | Inr time_points \<Rightarrow> Inr (df2, time_points))"

subsection \<open>calculate\_rates\<close>

text \<open>
  The difference \<open>episode_df.iloc[i][column] - episode_df.iloc[i-1][column]\<close> of two
  cells read from rows: an \<open>int64\<close> difference when the rows are integer rows.
\<close>

definition cell_difference :: "frame \<Rightarrow> npfloat \<Rightarrow> npfloat \<Rightarrow> npfloat" where
  "cell_difference episode_df x y =
     (if int_rows episode_df then subtract_int64 x y else subtract x y)"

text \<open>The body of the loop \<open>for i in range(1, len(episode_df))\<close>: the rate appended for \<open>i\<close>.\<close>

definition rate_at :: "frame \<Rightarrow> string \<Rightarrow> nat \<Rightarrow> npfloat" where
  "rate_at episode_df column i =
     (let duration_minutes = true_divide (iloc episode_df i ''GreenLightTime'') (Fin 60) in
      if fgt duration_minutes (Fin 0)
      then py_max0 (true_divide
                      (cell_difference episode_df (iloc episode_df i column)
                         (iloc episode_df (i - 1) column))
                      duration_minutes)
      else Fin 0)"

definition first_rate :: "frame \<Rightarrow> string \<Rightarrow> npfloat" where
  "first_rate episode_df column =
     (if fgt (iloc episode_df 0 ''GreenLightTime'') (Fin 0)
      then true_divide (iloc episode_df 0 column)
             (true_divide (iloc episode_df 0 ''GreenLightTime'') (Fin 60))
      else Fin 0)"

text \<open>The list \<open>rates\<close> once the first episode's rate has been inserted at the front.\<close>

definition rates :: "frame \<Rightarrow> string \<Rightarrow> npfloat list" where
  "rates episode_df column =
     (let rs = map (rate_at episode_df column) [1..<length (rows episode_df)] in
      if length (rows episode_df) > 0 then first_rate episode_df column # rs else rs)"

text \<open>
  One pass of the loop over the three metric columns, for a column the frame has.
  Reading \<open>GreenLightTime\<close> from a row, or the \<open>CumulativeTime\<close> column, raises
  \<open>KeyError\<close> when the frame lacks it.
\<close>

definition column_rate :: "frame \<Rightarrow> npfloat list \<Rightarrow> string \<Rightarrow> py_error + npfloat list" where
  "column_rate episode_df time_points column =
     (if length (rows episode_df) > 0 \<and> ''GreenLightTime'' \<notin> set (columns episode_df)
      then Inl (KeyError ''GreenLightTime'')
      else if ''CumulativeTime'' \<notin> set (columns episode_df)
      then Inl (KeyError ''CumulativeTime'')
      else np_interp time_points (series episode_df ''CumulativeTime'') (rates episode_df column))"

definition metric_columns :: "string list" where
  "metric_columns = [''TotalVehicles'', ''VehiclesWaiting'', ''FuelConsumed'']"

fun rates_loop ::
  "frame \<Rightarrow> npfloat list \<Rightarrow> string list \<Rightarrow> (string \<times> npfloat list) list
   \<Rightarrow> py_error + (string \<times> npfloat list) list" where
  "rates_loop episode_df time_points [] interpolated_data = Inr interpolated_data"
| "rates_loop episode_df time_points (column # cs) interpolated_data =
     (if column \<in> set (columns episode_df) then
        (case column_rate episode_df time_points column of
           Inl e \<Rightarrow> Inl e
         | Inr ys \<Rightarrow>
             rates_loop episode_df time_points cs
               (interpolated_data @ [(column @ ''_Rate'', ys)]))
      else rates_loop episode_df time_points cs interpolated_data)"

definition calculate_rates ::
  "frame \<Rightarrow> npfloat list \<Rightarrow> py_error + (string \<times> npfloat list) list" where
  "calculate_rates episode_df time_points = rates_loop episode_df time_points metric_columns []"

subsection \<open>generate\_time\_based\_summary\<close>

text \<open>
  A cell of a summary table is a string. A formatted number such as \<open>f"{x:.2f}"\<close> is
  kept as \<open>Fmt 2 x []\<close>, and \<open>f"{x:.1f}%"\<close> as \<open>Fmt 1 x\<close> with the suffix \<open>%\<close>
  (digits, value, suffix): the rendering of the digits is not modelled. A table is the
  dict of lists the script builds.
\<close>

datatype cell = Str string | Fmt nat npfloat string

type_synonym table = "(string \<times> cell list) list"

text \<open>\<open>d.get(k, default)\<close>, \<open>d[k]\<close> for a key that is present, and \<open>d[k][i] = v\<close>.\<close>

definition dict_get :: "(string \<times> 'v) list \<Rightarrow> string \<Rightarrow> 'v \<Rightarrow> 'v" where
  "dict_get d k dflt = (case map_of d k of Some v \<Rightarrow> v | None \<Rightarrow> dflt)"

definition entry :: "table \<Rightarrow> string \<Rightarrow> cell list" where
  "entry d k = dict_get d k []"

definition set_item :: "table \<Rightarrow> string \<Rightarrow> nat \<Rightarrow> cell \<Rightarrow> table" where
  "set_item d k i v = map (\<lambda>(k', xs). if k' = k then (k', xs[i := v]) else (k', xs)) d"

definition throughput_improvement :: "npfloat \<Rightarrow> npfloat \<Rightarrow> npfloat" where
  "throughput_improvement ml_throughput static_throughput =
     fmul (fdiv (fsub ml_throughput static_throughput) static_throughput) (Fin 100)"

definition queue_reduction :: "npfloat \<Rightarrow> npfloat \<Rightarrow> npfloat" where
  "queue_reduction ml_queue static_queue =
     fmul (fdiv (fsub static_queue ml_queue) static_queue) (Fin 100)"

definition fuel_savings :: "npfloat \<Rightarrow> npfloat \<Rightarrow> npfloat" where
  "fuel_savings ml_fuel static_fuel =
     fmul (fdiv (fsub static_fuel ml_fuel) static_fuel) (Fin 100)"

definition total_time :: "npfloat list \<Rightarrow> cell" where
  "total_time t = (if length t > 0 then Fmt 2 (fdiv (last t) (Fin 60)) [] else Str ''0.00'')"

definition mean_rate :: "(string \<times> npfloat list) list \<Rightarrow> string \<Rightarrow> npfloat" where
  "mean_rate data k = np_mean (dict_get data k [Fin 0])"

definition summary_data0 ::
  "(string \<times> npfloat list) list \<Rightarrow> (string \<times> npfloat list) list
   \<Rightarrow> npfloat list \<Rightarrow> npfloat list \<Rightarrow> table" where
  "summary_data0 ml_data static_data ml_time static_time =
     [(''Metric'',
        [Str ''Total Simulation Time (minutes)'',
         Str ''Average Throughput Rate (vehicles/min)'',
         Str ''Average Queue Growth Rate (vehicles/min)'',
         Str ''Average Fuel Consumption Rate (L/min)'',
         Str ''ML vs Static Throughput Improvement (%)'',
         Str ''ML vs Static Queue Reduction (%)'',
         Str ''ML vs Static Fuel Savings (%)'']),
      (''ML Agent'',
        [total_time ml_time,
         Fmt 2 (mean_rate ml_data ''TotalVehicles_Rate'') [],
         Fmt 2 (mean_rate ml_data ''VehiclesWaiting_Rate'') [],
         Fmt 2 (mean_rate ml_data ''FuelConsumed_Rate'') [],
         Str ''-'', Str ''-'', Str ''-'']),
      (''Static Controller'',
        [total_time static_time,
         Fmt 2 (mean_rate static_data ''TotalVehicles_Rate'') [],
         Fmt 2 (mean_rate static_data ''VehiclesWaiting_Rate'') [],
         Fmt 2 (mean_rate static_data ''FuelConsumed_Rate'') [],
         Str ''-'', Str ''-'', Str ''-''])]"

text \<open>
  The frames \<open>ml_episode\<close> and \<open>static_episode\<close> are parameters the function never
  reads. Writing the CSV file and printing are left out; the table is the result.
\<close>

definition generate_time_based_summary ::
  "frame \<Rightarrow> frame \<Rightarrow> (string \<times> npfloat list) list \<Rightarrow> (string \<times> npfloat list) list
   \<Rightarrow> npfloat list \<Rightarrow> npfloat list \<Rightarrow> table" where
  "generate_time_based_summary ml_episode static_episode ml_data static_data ml_time static_time =
     (let summary_data = summary_data0 ml_data static_data ml_time static_time;
          ml_throughput = mean_rate ml_data ''TotalVehicles_Rate'';
          static_throughput = mean_rate static_data ''TotalVehicles_Rate'';
          ml_queue = mean_rate ml_data ''VehiclesWaiting_Rate'';
          static_queue = mean_rate static_data ''VehiclesWaiting_Rate'';
          ml_fuel = mean_rate ml_data ''FuelConsumed_Rate'';
          static_fuel = mean_rate static_data ''FuelConsumed_Rate'';
          summary_data =
            (if fgt static_throughput (Fin 0)
             then set_item
                    (set_item summary_data ''ML Agent'' 4
                       (Fmt 1 (throughput_improvement ml_throughput static_throughput) ''%''))
                    ''Static Controller'' 4 (Str ''0.0%'')
             else summary_data);
          summary_data =
            (if fgt static_queue (Fin 0)
             then set_item
                    (set_item summary_data ''ML Agent'' 5
                       (Fmt 1 (queue_reduction ml_queue static_queue) ''%''))
                    ''Static Controller'' 5 (Str ''0.0%'')
             else summary_data);
          summary_data =
            (if fgt static_fuel (Fin 0)
             then set_item
                    (set_item summary_data ''ML Agent'' 6
                       (Fmt 1 (fuel_savings ml_fuel static_fuel) ''%''))
                    ''Static Controller'' 6 (Str ''0.0%'')
             else summary_data)
      in summary_data)"

subsection \<open>main\<close>

text \<open>
  The body of \<open>main\<close> once both CSV files are loaded, without the plots: each
  policy's frame goes through \<open>convert_episodes_to_time\<close> and \<open>calculate_rates\<close>,
  then the summary is built. An exception of either step ends the run.
\<close>

definition main_analysis :: "frame \<Rightarrow> frame \<Rightarrow> py_error + table" where
  "main_analysis ml_episode0 static_episode0 =
     (case convert_episodes_to_time ml_episode0 of
        Inl e \<Rightarrow> Inl e
      | Inr (ml_episode, ml_time) \<Rightarrow>
     (case convert_episodes_to_time static_episode0 of
        Inl e \<Rightarrow> Inl e
      | Inr (static_episode, static_time) \<Rightarrow>
     (case calculate_rates ml_episode ml_time of
        Inl e \<Rightarrow> Inl e
      | Inr ml_data \<Rightarrow>
     (case calculate_rates static_episode static_time of
        Inl e \<Rightarrow> Inl e
      | Inr static_data \<Rightarrow>
          Inr (generate_time_based_summary ml_episode static_episode
                 ml_data static_data ml_time static_time)))))"

section \<open>analyze\_stats.py\<close>

text \<open>
  \<open>Series.mean()\<close> and \<open>Series.std()\<close> skip NaN cells. \<open>std\<close> uses \<open>ddof = 1\<close>: the
  squared deviations from the mean are summed and divided by \<open>count - 1\<close>, and the
  result is NaN when \<open>count \<le> 1\<close>.
\<close>

definition series_mean :: "npfloat list \<Rightarrow> npfloat" where
  "series_mean xs = np_mean (dropna xs)"

definition series_std :: "npfloat list \<Rightarrow> npfloat" where
  "series_std xs =
     (let values = dropna xs; count = length values in
      if count \<le> 1 then NaN
      else
        let avg = fdiv (fsum values) (Fin (real count));
            sqr = map (\<lambda>v. fmul (fsub avg v) (fsub avg v)) values
        in fsqrt (fdiv (fsum sqr) (Fin (real count - 1))))"

text \<open>
  One entry of \<open>results\<close>; the fields are the keys of the script's dict, with
  \<open>Improvement\<close> for the key \<open>Improvement_%\<close>.
\<close>

record result =
  Metric :: string
  ML_Mean :: npfloat
  Static_Mean :: npfloat
  ML_Std :: npfloat
  Static_Std :: npfloat
  Improvement :: npfloat

definition comparison_metrics :: "string list" where
  "comparison_metrics =
     [''TotalVehicles'', ''VehiclesWaiting'', ''FuelConsumed'', ''EpisodeDuration'']"

text \<open>
  The body of the loop of \<open>statistical_comparison\<close> for a metric both frames have.
  The median, minimum and maximum the script also computes are not part of the
  result and are left out.
\<close>

definition compare_metric :: "frame \<Rightarrow> frame \<Rightarrow> string \<Rightarrow> result" where
  "compare_metric ml_episodes static_episodes metric =
     (let ml_values = dropna (series ml_episodes metric);
          static_values = dropna (series static_episodes metric);
          ml_mean = series_mean ml_values;
          ml_std = series_std ml_values;
          static_mean = series_mean static_values;
          static_std = series_std static_values;
          improvement = fmul (fdiv (fsub static_mean ml_mean) static_mean) (Fin 100)
      in \<lparr> Metric = metric, ML_Mean = ml_mean, Static_Mean = static_mean,
           ML_Std = ml_std, Static_Std = static_std, Improvement = improvement \<rparr>)"

fun comparison_loop :: "frame \<Rightarrow> frame \<Rightarrow> string list \<Rightarrow> result list \<Rightarrow> result list" where
  "comparison_loop ml_episodes static_episodes [] results = results"
| "comparison_loop ml_episodes static_episodes (metric # ms) results =
     (if metric \<in> set (columns ml_episodes) \<and> metric \<in> set (columns static_episodes)
      then comparison_loop ml_episodes static_episodes ms
             (results @ [compare_metric ml_episodes static_episodes metric])
      else comparison_loop ml_episodes static_episodes ms results)"

definition statistical_comparison :: "frame \<Rightarrow> frame \<Rightarrow> result list" where
  "statistical_comparison ml_episodes static_episodes =
     comparison_loop ml_episodes static_episodes comparison_metrics []"

section \<open>Compare\_results.py\<close>

text \<open>\<open>Series.min()\<close>, as \<open>Series.max()\<close> above.\<close>

fun min_from :: "npfloat \<Rightarrow> npfloat list \<Rightarrow> npfloat" where
  "min_from m [] = m"
| "min_from m (x # xs) = min_from (if flt x m then x else m) xs"

definition series_min :: "npfloat list \<Rightarrow> npfloat" where
  "series_min xs = (case dropna xs of [] \<Rightarrow> NaN | y # ys \<Rightarrow> min_from y ys)"

text \<open>
  \<open>df[c]\<close> raises \<open>KeyError\<close> for a label that is not a column: the first such
  label among the reads, in the order the script makes them.
\<close>

fun first_missing :: "(frame \<times> string) list \<Rightarrow> string option" where
  "first_missing [] = None"
| "first_missing ((df, c) # reads) =
     (if c \<in> set (columns df) then first_missing reads else Some c)"

definition comparison_data :: "frame \<Rightarrow> frame \<Rightarrow> table" where
  "comparison_data ml_episode_df static_episode_df =
     (let ml_avg_fuel = series_mean (series ml_episode_df ''FuelConsumed'');
          static_avg_fuel = series_mean (series static_episode_df ''FuelConsumed'');
          comparison_data =
            [(''Metric'',
               [Str ''Average Vehicles Served'',
                Str ''Average Queue Length'',
                Str ''Average Fuel Consumed (L)'',
                Str ''Max Throughput'',
                Str ''Min Queue Length'',
                Str ''Performance Improvement (%)'']),
             (''ML Agent'',
               [Fmt 2 (series_mean (series ml_episode_df ''TotalVehicles'')) [],
                Fmt 2 (series_mean (series ml_episode_df ''VehiclesWaiting'')) [],
                Fmt 2 ml_avg_fuel [],
                Fmt 0 (series_max (series ml_episode_df ''TotalVehicles'')) [],
                Fmt 0 (series_min (series ml_episode_df ''VehiclesWaiting'')) [],
                Str ''-'']),
             (''Fixed-Time'',
               [Fmt 2 (series_mean (series static_episode_df ''TotalVehicles'')) [],
                Fmt 2 (series_mean (series static_episode_df ''VehiclesWaiting'')) [],
                Fmt 2 static_avg_fuel [],
                Fmt 0 (series_max (series static_episode_df ''TotalVehicles'')) [],
                Fmt 0 (series_min (series static_episode_df ''VehiclesWaiting'')) [],
                Str ''-''])];
          ml_throughput = series_mean (series ml_episode_df ''TotalVehicles'');
          static_throughput = series_mean (series static_episode_df ''TotalVehicles'');
          improvement =
            fmul (fdiv (fsub ml_throughput static_throughput) static_throughput) (Fin 100)
      in set_item (set_item comparison_data ''ML Agent'' 5 (Fmt 1 improvement ''%''))
           ''Fixed-Time'' 5 (Str ''Baseline (0%)''))"

text \<open>
  The message of the \<open>KeyError\<close> the script raises itself. The column name stands
  between typographic quotes, U+2018 and U+2019, written here as their UTF-8 bytes.
\<close>

definition left_quote :: string where
  "left_quote = [CHR 0xE2, CHR 0x80, CHR 0x98]"

definition right_quote :: string where
  "right_quote = [CHR 0xE2, CHR 0x80, CHR 0x99]"

definition missing_fuel :: "string \<Rightarrow> string" where
  "missing_fuel file = file @ '' missing '' @ left_quote @ ''FuelConsumed'' @ right_quote @ '' column''"

text \<open>
  \<open>analyze_comparison_results\<close> on the two episode frames (\<open>None\<close> for a file that
  does not exist). The result is the comparison table, or \<open>None\<close> when a frame is
  missing; plots and files are left out, but the column reads of the plots are kept
  since they can raise.
\<close>

definition analyze_comparison_results ::
  "frame option \<Rightarrow> frame option \<Rightarrow> py_error + table option" where
  "analyze_comparison_results ml_episode_df static_episode_df =
     (if (case ml_episode_df of None \<Rightarrow> False
          | Some df \<Rightarrow> ''FuelConsumed'' \<notin> set (columns df))
      then Inl (KeyError (missing_fuel ''episode_results.csv''))
      else if (case static_episode_df of None \<Rightarrow> False
               | Some df \<Rightarrow> ''FuelConsumed'' \<notin> set (columns df))
      then Inl (KeyError (missing_fuel ''static_episode_results.csv''))
      else
        (case (ml_episode_df, static_episode_df) of
           (Some ml, Some st) \<Rightarrow>
             (case first_missing
                     [(ml, ''Episode''), (ml, ''TotalVehicles''),
                      (st, ''Episode''), (st, ''TotalVehicles''),
                      (ml, ''VehiclesWaiting''), (st, ''VehiclesWaiting'')] of
                Some c \<Rightarrow> Inl (KeyError c)
              | None \<Rightarrow> Inr (Some (comparison_data ml st)))
         | _ \<Rightarrow> Inr None))"

section \<open>Example inputs\<close>

text \<open>
  A frame of float64 columns, written as its column labels and one list of finite
  cells per row.
\<close>

definition frame_of :: "string list \<Rightarrow> real list list \<Rightarrow> frame" where
  "frame_of cols cells =
     \<lparr> columns = cols,
       int_columns = [],
       rows = map (\<lambda>vals c. case map_of (zip cols vals) c of
                              Some v \<Rightarrow> Fin v | None \<Rightarrow> NaN) cells \<rparr>"

text \<open>Three episodes, the last of duration 0.\<close>

definition three_episodes :: frame where
  "three_episodes =
     frame_of [''GreenLightTime'', ''TotalVehicles''] [[30, 10], [30, 25], [0, 40]]"

text \<open>One episode whose metric value is negative.\<close>

definition negative_episode :: frame where
  "negative_episode = frame_of [''GreenLightTime'', ''TotalVehicles''] [[30, - 10]]"

text \<open>A run with no episode, as read from a CSV file holding only its header line.\<close>

definition no_episodes :: frame where
  "no_episodes = frame_of [''GreenLightTime'', ''TotalVehicles''] []"

text \<open>
  \<open>three_episodes\<close> and \<open>negative_episode\<close> as \<open>convert_episodes_to_time\<close> returns
  them, with the cumulative time of each episode.
\<close>

definition three_episodes_timed :: frame where
  "three_episodes_timed = assign three_episodes ''CumulativeTime'' [Fin 30, Fin 60, Fin 60]"

definition negative_episode_timed :: frame where
  "negative_episode_timed = assign negative_episode ''CumulativeTime'' [Fin 30]"

text \<open>
  Episode results of a learned controller and of a fixed-time controller, one episode
  each; a fixed-time run that served no vehicle; and a run of three episodes.
\<close>

definition ml_run :: frame where
  "ml_run =
     frame_of [''Episode'', ''TotalVehicles'', ''VehiclesWaiting'', ''FuelConsumed'']
       [[1, 20, 4, 3]]"

definition static_run :: frame where
  "static_run =
     frame_of [''Episode'', ''TotalVehicles'', ''VehiclesWaiting'', ''FuelConsumed'']
       [[1, 10, 8, 6]]"

definition idle_run :: frame where
  "idle_run =
     frame_of [''Episode'', ''TotalVehicles'', ''VehiclesWaiting'', ''FuelConsumed'']
       [[1, 0, 0, 0]]"

definition long_run :: frame where
  "long_run =
     frame_of [''Episode'', ''TotalVehicles'', ''VehiclesWaiting'', ''FuelConsumed'']
       [[1, 18, 4, 3], [2, 20, 4, 3], [3, 22, 4, 3]]"





section \<open>Evaluation of the examples\<close>

lemma float64_zero: "float64 0 = Fin 0"
  by (simp add: float64_def)

lemma float64_ordinary:
  assumes "1 / 1024 \<le> \<bar>r\<bar>" and "\<bar>r\<bar> \<le> 2 ^ 64"
  shows "float64 r = Fin r"
proof -
  have "(2::real) ^ 64 < 2 ^ 1024 - 2 ^ 970" by simp
  moreover have "(1::real) / 2 ^ 1075 < 1 / 1024" by simp
  ultimately show ?thesis using assms unfolding float64_def by auto
qed

lemmas frame_eval =
  frame_of_def assign_def assign_int64_def series_def iloc_def isnan_def dropna_def
  fgt_def fge_def feq_def fsub_def py_max0_def signed_inf_def

lemmas range_eval =
  true_divide_def subtract_def ranged_def cell_difference_def int_rows_def
  float64_zero float64_ordinary

lemmas time_eval =
  convert_episodes_to_time_def cumsum_def series_max_def np_arange_def
  calculate_rates_def metric_columns_def column_rate_def rates_def rate_at_def
  first_rate_def np_interp_def interp_single_def interp_value_def
  binary_search_with_guess_def linear_search_def

lemmas stats_eval =
  statistical_comparison_def comparison_metrics_def compare_metric_def
  series_mean_def series_std_def np_mean_def fsum_def

section \<open>The rate series\<close>

lemma length_rates: "length (rates df c) = length (rows df)"
  by (simp add: rates_def Let_def)















text \<open>
  Claim C2. Every entry of the rate series is non-negative, the entry of the first
  episode included, also when the first episode's metric value is negative. The code
  clamps the rates of the later episodes with \<open>max(0, rate)\<close> but not \<open>first_rate\<close>: for
  one episode of 30 seconds with the value -10 the rate list is \<open>[-20]\<close>, and the
  interpolated series \<open>calculate_rates\<close> returns holds -20 as well.
\<close>

theorem first_rate_not_clamped:
  "rates negative_episode ''TotalVehicles'' = [Fin (- 20)] \<and>
   convert_episodes_to_time negative_episode = Inr (negative_episode_timed, [Fin 0]) \<and>
   calculate_rates negative_episode_timed [Fin 0] = Inr [(''TotalVehicles_Rate'', [Fin (- 20)])]"
  by (simp add: negative_episode_timed_def negative_episode_def frame_eval range_eval time_eval
        upt_rec)

section \<open>Runs without episodes\<close>

text \<open>
  Claim C7. For a run with no episode the pipeline raises no error and returns empty
  results. In the code, the maximum of the empty cumulative-time column is NaN and
  \<open>np.arange\<close> raises \<open>ValueError\<close> on it, so \<open>convert_episodes_to_time\<close> fails;
  \<open>calculate_rates\<close> on a frame without rows fails as well, since \<open>np.interp\<close> refuses
  an empty list of sample points; and \<open>main\<close> ends with the error whichever policy has
  the empty run.
\<close>

theorem no_episodes_raises:
  "convert_episodes_to_time no_episodes = Inl ValueError \<and>
   calculate_rates (assign no_episodes ''CumulativeTime'' []) [] = Inl ValueError \<and>
   main_analysis no_episodes three_episodes = Inl ValueError \<and>
   main_analysis three_episodes no_episodes = Inl ValueError"
  by (simp add: main_analysis_def no_episodes_def three_episodes_def frame_eval range_eval
        time_eval upt_rec)

section \<open>Improvement percentages\<close>

text \<open>
  Claim C3. The improvement percentage is \<open>(treatment - baseline) / baseline * 100\<close> for
  the throughput metric \<open>TotalVehicles\<close> and \<open>(baseline - treatment) / baseline * 100\<close>
  for the others, wherever it is computed. \<open>statistical_comparison\<close> uses the second
  formula for every metric: with a mean throughput of 20 for the learned controller and
  10 for the fixed-time one it reports -100 for \<open>TotalVehicles\<close>, where the formula of
  the claim, which the time-based summary uses, gives 100.
\<close>

theorem statistical_comparison_throughput_sign:
  "map (\<lambda>r. (Metric r, ML_Mean r, Static_Mean r, Improvement r))
       (statistical_comparison ml_run static_run) =
     [(''TotalVehicles'', Fin 20, Fin 10, Fin (- 100)),
      (''VehiclesWaiting'', Fin 4, Fin 8, Fin 50),
      (''FuelConsumed'', Fin 3, Fin 6, Fin 50)] \<and>
   throughput_improvement (Fin 20) (Fin 10) = Fin 100"
  by (simp add: ml_run_def static_run_def frame_eval stats_eval throughput_improvement_def)

text \<open>
  Claim C4. When the baseline mean is 0 the improvement percentage is a marker for
  "not computable", never an infinity or NaN, wherever it is computed. The time-based
  summary keeps its placeholder there, but \<open>statistical_comparison\<close> and
  \<open>analyze_comparison_results\<close> divide without a test: against a fixed-time run whose
  means are 0 the first reports minus infinity for every metric and the second formats
  plus infinity into the table; with both means 0 the result is NaN.
\<close>

theorem zero_baseline_not_guarded:
  "map (\<lambda>r. (Metric r, Static_Mean r, Improvement r))
       (statistical_comparison ml_run idle_run) =
     [(''TotalVehicles'', Fin 0, NInf),
      (''VehiclesWaiting'', Fin 0, NInf),
      (''FuelConsumed'', Fin 0, NInf)] \<and>
   Improvement (compare_metric idle_run idle_run ''TotalVehicles'') = NaN \<and>
   (case analyze_comparison_results (Some ml_run) (Some idle_run) of
      Inr (Some t) \<Rightarrow> entry t ''ML Agent'' ! 5
    | _ \<Rightarrow> Str []) = Fmt 1 PInf ''%''"
  by (simp add: ml_run_def idle_run_def frame_eval stats_eval analyze_comparison_results_def
        comparison_data_def set_item_def series_max_def series_min_def entry_def dict_get_def
        Let_def)

section \<open>Standard deviation\<close>

lemma foldl_fadd_Fin: "foldl fadd (Fin a) (map Fin xs) = Fin (a + sum_list xs)"
  by (induction xs arbitrary: a) (simp_all add: add.assoc)

lemma fsum_Fin: "fsum (map Fin xs) = Fin (sum_list xs)"
  by (simp add: fsum_def foldl_fadd_Fin)

lemma dropna_Fin: "dropna (map Fin xs) = map Fin xs"
  by (induction xs) (simp_all add: dropna_def isnan_def)

lemma series_std_Fin:
  "series_std (map Fin xs) =
     (if length xs \<le> 1 then NaN
      else Fin (sqrt ((\<Sum>x\<leftarrow>xs. (x - sum_list xs / real (length xs))\<^sup>2)
                      / (real (length xs) - 1))))"
proof (cases "length xs \<le> 1")
  case True
  then show ?thesis by (simp add: series_std_def dropna_Fin Let_def)
next
  case False
  let ?n = "real (length xs)"
  let ?mu = "sum_list xs / ?n"
  have n: "?n \<noteq> 0" using False by auto
  have avg: "fdiv (fsum (map Fin xs)) (Fin ?n) = Fin ?mu"
    using n by (simp add: fsum_Fin)
  have sqr: "map (\<lambda>v. fmul (fsub (Fin ?mu) v) (fsub (Fin ?mu) v)) (map Fin xs) =
             map Fin (map (\<lambda>x. (x - ?mu)\<^sup>2) xs)"
    by (simp add: fsub_def power2_eq_square algebra_simps)
  have n1: "?n - 1 \<noteq> 0" using False by auto
  have nonneg: "0 \<le> (\<Sum>x\<leftarrow>xs. (x - ?mu)\<^sup>2) / (?n - 1)"
    using False by (intro divide_nonneg_nonneg sum_list_nonneg) auto
  have "series_std (map Fin xs) =
        fsqrt (fdiv (fsum (map (\<lambda>v. fmul (fsub (Fin ?mu) v) (fsub (Fin ?mu) v)) (map Fin xs)))
                 (Fin (?n - 1)))"
    using False by (simp add: series_std_def dropna_Fin Let_def avg del: map_map)
  also have "\<dots> = fsqrt (fdiv (fsum (map Fin (map (\<lambda>x. (x - ?mu)\<^sup>2) xs))) (Fin (?n - 1)))"
    by (simp only: sqr)
  also have "\<dots> = Fin (sqrt ((\<Sum>x\<leftarrow>xs. (x - ?mu)\<^sup>2) / (?n - 1)))"
    using n1 nonneg by (simp add: fsum_Fin del: map_map)
  finally show ?thesis using False by simp
qed

text \<open>
  Claim C5, as amended. The standard deviations \<open>statistical_comparison\<close> reports use
  the sample convention: for a metric whose values, once the missing ones are dropped,
  are the finite numbers \<open>xs\<close>, \<open>ML_Std\<close> is the square root of the sum of the squared
  deviations from the mean divided by \<open>n - 1\<close> when \<open>n \<ge> 2\<close>, and it is NaN (not 0)
  when \<open>n \<le> 1\<close>; likewise \<open>Static_Std\<close>.
\<close>

theorem statistical_comparison_std:
  assumes "dropna (series ml_episodes metric) = map Fin xs"
    and "dropna (series static_episodes metric) = map Fin ys"
  shows "ML_Std (compare_metric ml_episodes static_episodes metric) =
           (if length xs \<le> 1 then NaN
            else Fin (sqrt ((\<Sum>x\<leftarrow>xs. (x - sum_list xs / real (length xs))\<^sup>2)
                            / (real (length xs) - 1)))) \<and>
         Static_Std (compare_metric ml_episodes static_episodes metric) =
           (if length ys \<le> 1 then NaN
            else Fin (sqrt ((\<Sum>y\<leftarrow>ys. (y - sum_list ys / real (length ys))\<^sup>2)
                            / (real (length ys) - 1))))"
  using assms by (simp add: compare_metric_def Let_def series_std_Fin)

theorem statistical_comparison_std_witness:
  "ML_Std (compare_metric long_run static_run ''TotalVehicles'') = Fin 2 \<and>
   Static_Std (compare_metric long_run static_run ''TotalVehicles'') = NaN"
proof -
  have ml: "dropna (series long_run ''TotalVehicles'') = map Fin [18, 20, 22]"
    by (simp add: long_run_def frame_eval)
  have st: "dropna (series static_run ''TotalVehicles'') = map Fin [10]"
    by (simp add: static_run_def frame_eval)
  have "sqrt ((\<Sum>x\<leftarrow>[18, 20, 22 :: real]. (x - sum_list [18, 20, 22] / real (length [18, 20, 22 :: real]))\<^sup>2)
              / (real (length [18, 20, 22 :: real]) - 1)) = 2"
    by simp
  with statistical_comparison_std [OF ml st] show ?thesis by simp
qed

text \<open>
  The claim as stated fails on a series with a single value: the reported standard
  deviation is NaN, not 0.
\<close>

theorem statistical_comparison_std_counterexample:
  "map ML_Std (statistical_comparison ml_run static_run) = [NaN, NaN, NaN] \<and>
   ML_Std (compare_metric ml_run static_run ''TotalVehicles'') \<noteq> Fin 0"
  by (simp add: ml_run_def static_run_def frame_eval stats_eval)

section \<open>Metrics absent from the records\<close>

lemma length_series: "length (series df c) = length (rows df)"
  by (simp add: series_def)

lemma length_interp_loop: "length (interp_loop xp fp j xs) = length xs"
  by (induction xs arbitrary: j) (simp_all add: Let_def)

lemma np_interp_ok:
  assumes "xp \<noteq> []" and "length fp = length xp"
  shows "\<exists>ys. np_interp x xp fp = Inr ys \<and> length ys = length x"
  using assms by (simp add: np_interp_def length_interp_loop)

lemma column_rate_ok:
  assumes "rows df \<noteq> []" and "''GreenLightTime'' \<in> set (columns df)"
    and "''CumulativeTime'' \<in> set (columns df)"
  shows "\<exists>ys. column_rate df tp c = Inr ys \<and> length ys = length tp"
proof -
  have "series df ''CumulativeTime'' \<noteq> []" using assms(1) by (simp add: series_def)
  moreover have "length (rates df c) = length (series df ''CumulativeTime'')"
    by (simp add: length_rates length_series)
  ultimately show ?thesis
    using assms by (simp add: column_rate_def np_interp_ok)
qed

lemma rates_loop_keys:
  assumes "rows df \<noteq> []" and "''GreenLightTime'' \<in> set (columns df)"
    and "''CumulativeTime'' \<in> set (columns df)"
    and "distinct cs" and "\<forall>c \<in> set cs. map_of acc (c @ ''_Rate'') = None"
  shows "\<exists>d. rates_loop df tp cs acc = Inr d \<and>
           (\<forall>k. k \<notin> (\<lambda>c. c @ ''_Rate'') ` set cs \<longrightarrow> map_of d k = map_of acc k) \<and>
           (\<forall>c \<in> set cs.
              (c \<in> set (columns df) \<longrightarrow>
                 (\<exists>ys. map_of d (c @ ''_Rate'') = Some ys \<and> length ys = length tp)) \<and>
              (c \<notin> set (columns df) \<longrightarrow> map_of d (c @ ''_Rate'') = None))"
  using assms(4,5)
proof (induction cs arbitrary: acc)
  case Nil
  then show ?case by simp
next
  case (Cons c cs)
  show ?case
  proof (cases "c \<in> set (columns df)")
    case False
    from Cons.prems have "distinct cs" and "\<forall>c \<in> set cs. map_of acc (c @ ''_Rate'') = None"
      by simp_all
    from Cons.IH [OF this] obtain d where d: "rates_loop df tp cs acc = Inr d"
      and keep: "\<forall>k. k \<notin> (\<lambda>c. c @ ''_Rate'') ` set cs \<longrightarrow> map_of d k = map_of acc k"
      and each: "\<forall>c \<in> set cs.
              (c \<in> set (columns df) \<longrightarrow>
                 (\<exists>ys. map_of d (c @ ''_Rate'') = Some ys \<and> length ys = length tp)) \<and>
              (c \<notin> set (columns df) \<longrightarrow> map_of d (c @ ''_Rate'') = None)"
      by blast
    have "c @ ''_Rate'' \<notin> (\<lambda>c. c @ ''_Rate'') ` set cs" using Cons.prems(1) by auto
    then have "map_of d (c @ ''_Rate'') = None" using keep Cons.prems(2) by simp
    then show ?thesis using False d keep each by auto
  next
    case True
    from column_rate_ok [OF assms(1,2,3)] obtain ys where ys: "column_rate df tp c = Inr ys"
      and len: "length ys = length tp" by blast
    let ?acc = "acc @ [(c @ ''_Rate'', ys)]"
    have fresh: "c @ ''_Rate'' \<notin> (\<lambda>c. c @ ''_Rate'') ` set cs" using Cons.prems(1) by auto
    have "\<forall>c' \<in> set cs. map_of ?acc (c' @ ''_Rate'') = None"
      using Cons.prems fresh by (auto simp add: map_add_def map_of_append split: option.splits)
    moreover have "distinct cs" using Cons.prems(1) by simp
    ultimately obtain d where d: "rates_loop df tp cs ?acc = Inr d"
      and keep: "\<forall>k. k \<notin> (\<lambda>c. c @ ''_Rate'') ` set cs \<longrightarrow> map_of d k = map_of ?acc k"
      and each: "\<forall>c \<in> set cs.
              (c \<in> set (columns df) \<longrightarrow>
                 (\<exists>ys. map_of d (c @ ''_Rate'') = Some ys \<and> length ys = length tp)) \<and>
              (c \<notin> set (columns df) \<longrightarrow> map_of d (c @ ''_Rate'') = None)"
      using Cons.IH [of ?acc] by blast
    have "map_of d (c @ ''_Rate'') = map_of ?acc (c @ ''_Rate'')" using keep fresh by simp
    also have "\<dots> = Some ys"
      using Cons.prems(2) by (simp add: map_of_append map_add_def)
    finally have here: "map_of d (c @ ''_Rate'') = Some ys" .
    have keep': "\<forall>k. k \<notin> (\<lambda>c. c @ ''_Rate'') ` set (c # cs) \<longrightarrow> map_of d k = map_of acc k"
      using keep by (auto simp add: map_of_append map_add_def split: option.splits)
    show ?thesis using True ys d here len keep' each by auto
  qed
qed


lemma entry_set_item_same:
  "entry (set_item d k i v) k = (entry d k)[i := v]"
  by (induction d) (auto simp add: entry_def set_item_def dict_get_def)

lemma entry_set_item_other:
  "k' \<noteq> k \<Longrightarrow> entry (set_item d k i v) k' = entry d k'"
  by (induction d) (auto simp add: entry_def set_item_def dict_get_def)

lemma entry_summary_data0_ml:
  "entry (summary_data0 ml_data static_data ml_time static_time) ''ML Agent'' =
     [total_time ml_time,
      Fmt 2 (mean_rate ml_data ''TotalVehicles_Rate'') [],
      Fmt 2 (mean_rate ml_data ''VehiclesWaiting_Rate'') [],
      Fmt 2 (mean_rate ml_data ''FuelConsumed_Rate'') [],
      Str ''-'', Str ''-'', Str ''-'']"
  by (simp add: summary_data0_def entry_def dict_get_def)

lemma entry_summary_data0_static:
  "entry (summary_data0 ml_data static_data ml_time static_time) ''Static Controller'' =
     [total_time static_time,
      Fmt 2 (mean_rate static_data ''TotalVehicles_Rate'') [],
      Fmt 2 (mean_rate static_data ''VehiclesWaiting_Rate'') [],
      Fmt 2 (mean_rate static_data ''FuelConsumed_Rate'') [],
      Str ''-'', Str ''-'', Str ''-'']"
  by (simp add: summary_data0_def entry_def dict_get_def)

lemma mean_rate_absent: "map_of data k = None \<Longrightarrow> mean_rate data k = Fin 0"
  by (simp add: mean_rate_def dict_get_def np_mean_def fsum_def)

lemma improvement_against_zero:
  assumes "0 < s"
  shows "throughput_improvement (Fin 0) (Fin s) = Fin (- 100)"
    and "queue_reduction (Fin 0) (Fin s) = Fin 100"
    and "fuel_savings (Fin 0) (Fin s) = Fin 100"
  using assms
  by (simp_all add: throughput_improvement_def queue_reduction_def fuel_savings_def fsub_def)

lemmas summary_cells =
  generate_time_based_summary_def Let_def entry_set_item_same entry_set_item_other
  entry_summary_data0_ml entry_summary_data0_static

text \<open>
  Claim C6, as amended. In the time-based analysis a metric that a record set lacks
  is not reported as a failure and does not stop the other metrics. On a frame with
  at least one episode and the two time columns (as \<open>convert_episodes_to_time\<close>
  returns it), \<open>calculate_rates\<close> succeeds: its result has no entry for a metric
  column the frame lacks and, for each metric column the frame has, a series with
  one value per grid point. \<open>generate_time_based_summary\<close> then puts the one-value
  series \<open>[0]\<close> in the place of a missing entry: the average rate of that policy is
  reported as 0; when the entry is missing on the ML side and the static mean is
  positive, the improvement is computed against 0 (-100 for the throughput, 100 for
  the queue reduction and the fuel savings); when it is missing on the static side
  the improvement stays at the placeholder.
\<close>

theorem absent_metric_time_based:
  assumes "rows df \<noteq> []" and "''GreenLightTime'' \<in> set (columns df)"
    and "''CumulativeTime'' \<in> set (columns df)"
  shows "(\<exists>d. calculate_rates df tp = Inr d \<and>
           (\<forall>c \<in> set metric_columns.
              (c \<in> set (columns df) \<longrightarrow>
                 (\<exists>ys. map_of d (c @ ''_Rate'') = Some ys \<and> length ys = length tp)) \<and>
              (c \<notin> set (columns df) \<longrightarrow>
                 map_of d (c @ ''_Rate'') = None \<and> mean_rate d (c @ ''_Rate'') = Fin 0))) \<and>
         (let S = generate_time_based_summary ml_episode static_episode
                    ml_data static_data ml_time static_time
          in (map_of ml_data ''TotalVehicles_Rate'' = None \<longrightarrow>
                entry S ''ML Agent'' ! 1 = Fmt 2 (Fin 0) [] \<and>
                (\<forall>s. 0 < s \<and> mean_rate static_data ''TotalVehicles_Rate'' = Fin s \<longrightarrow>
                     entry S ''ML Agent'' ! 4 = Fmt 1 (Fin (- 100)) ''%'')) \<and>
             (map_of ml_data ''VehiclesWaiting_Rate'' = None \<longrightarrow>
                entry S ''ML Agent'' ! 2 = Fmt 2 (Fin 0) [] \<and>
                (\<forall>s. 0 < s \<and> mean_rate static_data ''VehiclesWaiting_Rate'' = Fin s \<longrightarrow>
                     entry S ''ML Agent'' ! 5 = Fmt 1 (Fin 100) ''%'')) \<and>
             (map_of ml_data ''FuelConsumed_Rate'' = None \<longrightarrow>
                entry S ''ML Agent'' ! 3 = Fmt 2 (Fin 0) [] \<and>
                (\<forall>s. 0 < s \<and> mean_rate static_data ''FuelConsumed_Rate'' = Fin s \<longrightarrow>
                     entry S ''ML Agent'' ! 6 = Fmt 1 (Fin 100) ''%'')) \<and>
             (map_of static_data ''TotalVehicles_Rate'' = None \<longrightarrow>
                entry S ''Static Controller'' ! 1 = Fmt 2 (Fin 0) [] \<and>
                entry S ''ML Agent'' ! 4 = Str ''-'') \<and>
             (map_of static_data ''VehiclesWaiting_Rate'' = None \<longrightarrow>
                entry S ''Static Controller'' ! 2 = Fmt 2 (Fin 0) [] \<and>
                entry S ''ML Agent'' ! 5 = Str ''-'') \<and>
             (map_of static_data ''FuelConsumed_Rate'' = None \<longrightarrow>
                entry S ''Static Controller'' ! 3 = Fmt 2 (Fin 0) [] \<and>
                entry S ''ML Agent'' ! 6 = Str ''-''))"
proof (rule conjI)
  have "distinct metric_columns" by (simp add: metric_columns_def)
  moreover have "\<forall>c \<in> set metric_columns. map_of [] (c @ ''_Rate'') = (None :: npfloat list option)"
    by simp
  ultimately obtain d where d: "rates_loop df tp metric_columns [] = Inr d"
    and each: "\<forall>c \<in> set metric_columns.
              (c \<in> set (columns df) \<longrightarrow>
                 (\<exists>ys. map_of d (c @ ''_Rate'') = Some ys \<and> length ys = length tp)) \<and>
              (c \<notin> set (columns df) \<longrightarrow> map_of d (c @ ''_Rate'') = None)"
    using rates_loop_keys [OF assms, of metric_columns "[]" tp] by blast
  show "\<exists>d. calculate_rates df tp = Inr d \<and>
           (\<forall>c \<in> set metric_columns.
              (c \<in> set (columns df) \<longrightarrow>
                 (\<exists>ys. map_of d (c @ ''_Rate'') = Some ys \<and> length ys = length tp)) \<and>
              (c \<notin> set (columns df) \<longrightarrow>
                 map_of d (c @ ''_Rate'') = None \<and> mean_rate d (c @ ''_Rate'') = Fin 0))"
    using d each by (auto simp add: calculate_rates_def mean_rate_absent)
next
  show "let S = generate_time_based_summary ml_episode static_episode
                    ml_data static_data ml_time static_time
          in (map_of ml_data ''TotalVehicles_Rate'' = None \<longrightarrow>
                entry S ''ML Agent'' ! 1 = Fmt 2 (Fin 0) [] \<and>
                (\<forall>s. 0 < s \<and> mean_rate static_data ''TotalVehicles_Rate'' = Fin s \<longrightarrow>
                     entry S ''ML Agent'' ! 4 = Fmt 1 (Fin (- 100)) ''%'')) \<and>
             (map_of ml_data ''VehiclesWaiting_Rate'' = None \<longrightarrow>
                entry S ''ML Agent'' ! 2 = Fmt 2 (Fin 0) [] \<and>
                (\<forall>s. 0 < s \<and> mean_rate static_data ''VehiclesWaiting_Rate'' = Fin s \<longrightarrow>
                     entry S ''ML Agent'' ! 5 = Fmt 1 (Fin 100) ''%'')) \<and>
             (map_of ml_data ''FuelConsumed_Rate'' = None \<longrightarrow>
                entry S ''ML Agent'' ! 3 = Fmt 2 (Fin 0) [] \<and>
                (\<forall>s. 0 < s \<and> mean_rate static_data ''FuelConsumed_Rate'' = Fin s \<longrightarrow>
                     entry S ''ML Agent'' ! 6 = Fmt 1 (Fin 100) ''%'')) \<and>
             (map_of static_data ''TotalVehicles_Rate'' = None \<longrightarrow>
                entry S ''Static Controller'' ! 1 = Fmt 2 (Fin 0) [] \<and>
                entry S ''ML Agent'' ! 4 = Str ''-'') \<and>
             (map_of static_data ''VehiclesWaiting_Rate'' = None \<longrightarrow>
                entry S ''Static Controller'' ! 2 = Fmt 2 (Fin 0) [] \<and>
                entry S ''ML Agent'' ! 5 = Str ''-'') \<and>
             (map_of static_data ''FuelConsumed_Rate'' = None \<longrightarrow>
                entry S ''Static Controller'' ! 3 = Fmt 2 (Fin 0) [] \<and>
                entry S ''ML Agent'' ! 6 = Str ''-'')"
    by (auto simp add: summary_cells mean_rate_absent improvement_against_zero fgt_def)
qed

theorem absent_metric_time_based_witness:
  "(\<exists>d. calculate_rates three_episodes_timed [Fin 0, Fin 30] = Inr d \<and>
        map_of d ''FuelConsumed_Rate'' = None \<and>
        mean_rate d ''FuelConsumed_Rate'' = Fin 0 \<and>
        (\<exists>ys. map_of d ''TotalVehicles_Rate'' = Some ys \<and> length ys = 2)) \<and>
   entry (generate_time_based_summary three_episodes_timed three_episodes_timed
            [(''TotalVehicles_Rate'', [Fin 20, Fin 20])]
            [(''TotalVehicles_Rate'', [Fin 10, Fin 10]), (''FuelConsumed_Rate'', [Fin 6, Fin 6])]
            [Fin 0, Fin 30] [Fin 0, Fin 30]) ''ML Agent'' ! 3 = Fmt 2 (Fin 0) [] \<and>
   entry (generate_time_based_summary three_episodes_timed three_episodes_timed
            [(''TotalVehicles_Rate'', [Fin 20, Fin 20])]
            [(''TotalVehicles_Rate'', [Fin 10, Fin 10]), (''FuelConsumed_Rate'', [Fin 6, Fin 6])]
            [Fin 0, Fin 30] [Fin 0, Fin 30]) ''ML Agent'' ! 6 = Fmt 1 (Fin 100) ''%''"
proof -
  let ?ml = "[(''TotalVehicles_Rate'', [Fin 20, Fin 20 :: npfloat])]"
  let ?static = "[(''TotalVehicles_Rate'', [Fin 10, Fin 10 :: npfloat]),
                  (''FuelConsumed_Rate'', [Fin 6, Fin 6])]"
  have a: "rows three_episodes_timed \<noteq> []"
    by (simp add: three_episodes_timed_def three_episodes_def frame_eval)
  have b: "''GreenLightTime'' \<in> set (columns three_episodes_timed)"
    by (simp add: three_episodes_timed_def three_episodes_def frame_eval)
  have c: "''CumulativeTime'' \<in> set (columns three_episodes_timed)"
    by (simp add: three_episodes_timed_def three_episodes_def frame_eval)
  have cols: "columns three_episodes_timed =
      [''GreenLightTime'', ''TotalVehicles'', ''CumulativeTime'']"
    by (simp add: three_episodes_timed_def three_episodes_def frame_eval)
  have no_fuel: "map_of ?ml ''FuelConsumed_Rate'' = None" by simp
  have fuel: "(0 :: real) < 6 \<and> mean_rate ?static ''FuelConsumed_Rate'' = Fin 6"
    by (simp add: mean_rate_def dict_get_def np_mean_def fsum_def)
  note inst = absent_metric_time_based [OF a b c, of "[Fin 0, Fin 30]"
      three_episodes_timed three_episodes_timed ?ml ?static "[Fin 0, Fin 30]" "[Fin 0, Fin 30]"]
  from inst obtain d where d: "calculate_rates three_episodes_timed [Fin 0, Fin 30] = Inr d"
    and each: "\<forall>c \<in> set metric_columns.
              (c \<in> set (columns three_episodes_timed) \<longrightarrow>
                 (\<exists>ys. map_of d (c @ ''_Rate'') = Some ys \<and>
                       length ys = length [Fin 0, Fin 30 :: npfloat])) \<and>
              (c \<notin> set (columns three_episodes_timed) \<longrightarrow>
                 map_of d (c @ ''_Rate'') = None \<and> mean_rate d (c @ ''_Rate'') = Fin 0)"
    by blast
  from each have first: "map_of d ''FuelConsumed_Rate'' = None \<and>
      mean_rate d ''FuelConsumed_Rate'' = Fin 0 \<and>
      (\<exists>ys. map_of d ''TotalVehicles_Rate'' = Some ys \<and> length ys = 2)"
    by (auto simp add: metric_columns_def cols)
  from inst no_fuel fuel
  have "entry (generate_time_based_summary three_episodes_timed three_episodes_timed
                 ?ml ?static [Fin 0, Fin 30] [Fin 0, Fin 30]) ''ML Agent'' ! 3 = Fmt 2 (Fin 0) [] \<and>
        entry (generate_time_based_summary three_episodes_timed three_episodes_timed
                 ?ml ?static [Fin 0, Fin 30] [Fin 0, Fin 30]) ''ML Agent'' ! 6 =
          Fmt 1 (Fin 100) ''%''"
    unfolding Let_def by blast
  with d first show ?thesis by blast
qed

text \<open>
  The claim as stated fails: for a record set without \<open>FuelConsumed\<close> the time-based
  analysis reports no failure at all, and \<open>analyze_comparison_results\<close> raises a
  \<open>KeyError\<close> that ends the whole comparison, the other metrics included.
\<close>

theorem missing_column_counterexample:
  "''FuelConsumed'' \<notin> set (columns three_episodes) \<and>
   convert_episodes_to_time three_episodes = Inr (three_episodes_timed, [Fin 0, Fin 30]) \<and>
   calculate_rates three_episodes_timed [Fin 0, Fin 30] =
     Inr [(''TotalVehicles_Rate'', [Fin 20, Fin 20])] \<and>
   analyze_comparison_results (Some three_episodes) (Some static_run) =
     Inl (KeyError (missing_fuel ''episode_results.csv''))"
  by (simp add: three_episodes_timed_def three_episodes_def static_run_def frame_eval range_eval
        time_eval analyze_comparison_results_def upt_rec)

section \<open>Interpolation at the recorded times\<close>

text \<open>
  The number of leading sample points that are not above the key. In a list in
  non-decreasing order these are all the points not above the key.
\<close>

lemma takeWhile_le_iff:
  assumes "sorted xs" and "i < length xs"
  shows "(i < length (takeWhile (\<lambda>y. y \<le> key) xs)) = (xs ! i \<le> (key :: real))"
proof
  assume lt: "i < length (takeWhile (\<lambda>y. y \<le> key) xs)"
  then have "takeWhile (\<lambda>y. y \<le> key) xs ! i = xs ! i" by (rule takeWhile_nth)
  moreover have "takeWhile (\<lambda>y. y \<le> key) xs ! i \<in> set (takeWhile (\<lambda>y. y \<le> key) xs)"
    using lt by simp
  ultimately show "xs ! i \<le> key" using set_takeWhileD by metis
next
  assume le: "xs ! i \<le> key"
  show "i < length (takeWhile (\<lambda>y. y \<le> key) xs)"
  proof (rule ccontr)
    let ?c = "length (takeWhile (\<lambda>y. y \<le> key) xs)"
    assume "\<not> i < ?c"
    then have ci: "?c \<le> i" by simp
    then have "?c < length xs" using assms(2) by simp
    then have "\<not> xs ! ?c \<le> key" by (rule nth_length_takeWhile)
    moreover have "xs ! ?c \<le> xs ! i" using assms ci by (simp add: sorted_nth_mono)
    ultimately show False using le by simp
  qed
qed

lemma fge_Fin: "fge (Fin a) (Fin b) = (b \<le> a)"
  by (auto simp add: fge_def)

lemma bisect_sorted:
  assumes "sorted xs"
  shows "imin \<le> length (takeWhile (\<lambda>y. y \<le> key) xs) \<Longrightarrow>
         length (takeWhile (\<lambda>y. y \<le> key) xs) \<le> imax \<Longrightarrow> imax \<le> length xs \<Longrightarrow>
         bisect (Fin key) (map Fin xs) imin imax = length (takeWhile (\<lambda>y. y \<le> key) xs)"
proof (induction "imax - imin" arbitrary: imin imax rule: less_induct)
  case less
  let ?c = "length (takeWhile (\<lambda>y. y \<le> key) xs)"
  show ?case
  proof (cases "imin < imax")
    case False
    then have "imin = ?c" using less.prems by simp
    then show ?thesis using False by (subst bisect.simps) simp
  next
    case True
    let ?mid = "imin + (imax - imin) div 2"
    have mid: "imin \<le> ?mid" "?mid < imax" using True by simp_all
    then have mid_len: "?mid < length xs" using less.prems(3) by simp
    have test: "fge (Fin key) (map Fin xs ! ?mid) = (?mid < ?c)"
      using mid_len assms by (simp add: fge_Fin takeWhile_le_iff)
    show ?thesis
    proof (cases "?mid < ?c")
      case True
      have "bisect (Fin key) (map Fin xs) (?mid + 1) imax = ?c"
        using True mid less.prems by (intro less.hyps) simp_all
      then show ?thesis
        using \<open>imin < imax\<close> True test by (subst bisect.simps) (simp add: Let_def)
    next
      case False
      have "bisect (Fin key) (map Fin xs) imin ?mid = ?c"
        using False mid less.prems by (intro less.hyps) simp_all
      then show ?thesis
        using \<open>imin < imax\<close> False test by (subst bisect.simps) (simp add: Let_def)
    qed
  qed
qed

lemma scan_Fin: "scan (Fin x) (map Fin ys) = length (takeWhile (\<lambda>y. y \<le> x) ys)"
  by (induction ys) (auto simp add: fge_def)

lemma linear_search_Fin:
  assumes "xs \<noteq> []" and "xs ! 0 \<le> key"
  shows "int (linear_search (Fin key) (map Fin xs)) =
         int (length (takeWhile (\<lambda>y. y \<le> key) xs)) - 1"
proof -
  obtain x xs' where xs: "xs = x # xs'" using assms(1) by (cases xs) auto
  then show ?thesis using assms(2) by (simp add: linear_search_def scan_Fin)
qed

text \<open>
  On finite sample points in non-decreasing order the search returns, whatever the
  guess, the index of the last sample point that is not above the key.
\<close>

lemma binary_search_with_guess_sorted:
  assumes "sorted xs" and "xs \<noteq> []" and "xs ! 0 \<le> key" and "key \<le> xs ! (length xs - 1)"
  shows "binary_search_with_guess (Fin key) (map Fin xs) guess0 =
         int (length (takeWhile (\<lambda>y. y \<le> key) xs)) - 1"
proof -
  let ?c = "length (takeWhile (\<lambda>y. y \<le> key) xs)"
  let ?arr = "map Fin xs"
  have c_le: "?c \<le> length xs" by (rule length_takeWhile_le)
  have inside: "\<not> fgt (Fin key) (?arr ! (length xs - 1))" "\<not> flt (Fin key) (?arr ! 0)"
    using assms by (simp_all add: fgt_def)
  have iff: "\<And>i. i < length xs \<Longrightarrow> flt (Fin key) (?arr ! i) = (?c \<le> i)"
    using takeWhile_le_iff [OF assms(1), of _ key] by (simp add: not_less [symmetric])
  have geq: "\<And>i. i < length xs \<Longrightarrow> fge (Fin key) (?arr ! i) = (i < ?c)"
    using takeWhile_le_iff [OF assms(1), of _ key] by (simp add: fge_Fin)
  show ?thesis
  proof (cases "length xs \<le> 4")
    case True
    then show ?thesis
      using inside linear_search_Fin [OF assms(2,3)]
      by (simp add: binary_search_with_guess_def)
  next
    case False
    define g where "g = nat (max 1 (min guess0 (int (length xs) - 3)))"
    have len: "length ?arr = length xs" by simp
    have g: "1 \<le> g" "g + 2 < length xs" using False by (auto simp add: g_def)
    have unfold: "binary_search_with_guess (Fin key) ?arr guess0 =
        (if flt (Fin key) (?arr ! g) then
          (if flt (Fin key) (?arr ! (g - 1)) then
             int (bisect (Fin key) ?arr
                    (if 8 < g \<and> fge (Fin key) (?arr ! (g - 8)) then g - 8 else 0)
                    (g - 1)) - 1
           else int g - 1)
        else if flt (Fin key) (?arr ! (g + 1)) then int g
        else if flt (Fin key) (?arr ! (g + 2)) then int g + 1
        else
          int (bisect (Fin key) ?arr (g + 2)
                 (if g + 9 < length xs \<and> flt (Fin key) (?arr ! (g + 8)) then g + 8
                  else length xs))
          - 1)"
      unfolding binary_search_with_guess_def Let_def len g_def [symmetric]
      using False inside by (simp only: if_False)
    have i0: "g < length xs" and i1: "g - 1 < length xs" and i2: "g + 1 < length xs"
      using g by simp_all
    consider (a) "?c \<le> g - 1" | (b) "?c = g" | (c) "?c = g + 1" | (d) "?c = g + 2"
      | (e) "g + 2 < ?c"
      using g by linarith
    then show ?thesis
    proof cases
      case a
      have t1: "flt (Fin key) (?arr ! g)" using a g iff [OF i0] by simp
      have t2: "flt (Fin key) (?arr ! (g - 1))" using a iff [OF i1] by simp
      have lo: "(if 8 < g \<and> fge (Fin key) (?arr ! (g - 8)) then g - 8 else 0) \<le> ?c"
      proof (cases "8 < g \<and> fge (Fin key) (?arr ! (g - 8))")
        case True
        then have "g - 8 < length xs" using g by simp
        from geq [OF this] True show ?thesis by auto
      next
        case False
        then show ?thesis by auto
      qed
      have "bisect (Fin key) ?arr
              (if 8 < g \<and> fge (Fin key) (?arr ! (g - 8)) then g - 8 else 0) (g - 1) = ?c"
        using lo a g by (intro bisect_sorted [OF assms(1)]) simp_all
      then show ?thesis using t1 t2 by (simp only: unfold if_True)
    next
      case b
      have "flt (Fin key) (?arr ! g)" using b iff [OF i0] by simp
      moreover have "\<not> flt (Fin key) (?arr ! (g - 1))" using b g iff [OF i1] by simp
      ultimately show ?thesis using b g by (simp add: unfold)
    next
      case c
      have "\<not> flt (Fin key) (?arr ! g)" using c iff [OF i0] by simp
      moreover have "flt (Fin key) (?arr ! (g + 1))" using c iff [OF i2] by simp
      ultimately show ?thesis using c by (simp add: unfold)
    next
      case d
      have "\<not> flt (Fin key) (?arr ! g)" using d iff [OF i0] by simp
      moreover have "\<not> flt (Fin key) (?arr ! (g + 1))" using d iff [OF i2] by simp
      moreover have "flt (Fin key) (?arr ! (g + 2))" using d iff [OF g(2)] by simp
      ultimately show ?thesis using d by (simp add: unfold)
    next
      case e
      have t: "\<not> flt (Fin key) (?arr ! g)" "\<not> flt (Fin key) (?arr ! (g + 1))"
        "\<not> flt (Fin key) (?arr ! (g + 2))"
        using e iff [OF i0] iff [OF i2] iff [OF g(2)] by simp_all
      have hi: "?c \<le> (if g + 9 < length xs \<and> flt (Fin key) (?arr ! (g + 8)) then g + 8
                        else length xs)"
      proof (cases "g + 9 < length xs \<and> flt (Fin key) (?arr ! (g + 8))")
        case True
        then have "g + 8 < length xs" by simp
        from iff [OF this] True c_le show ?thesis by auto
      next
        case False
        then show ?thesis using c_le by auto
      qed
      have hi_len: "(if g + 9 < length xs \<and> flt (Fin key) (?arr ! (g + 8)) then g + 8
                     else length xs) \<le> length xs"
        by auto
      have "bisect (Fin key) ?arr (g + 2)
              (if g + 9 < length xs \<and> flt (Fin key) (?arr ! (g + 8)) then g + 8
               else length xs) = ?c"
        using e hi hi_len by (intro bisect_sorted [OF assms(1)]) simp_all
      then show ?thesis using t by (simp only: unfold if_True if_False)
    qed
  qed
qed

text \<open>
  At a recorded time that is followed by a later one (or by none), the search stops at
  the index of that time.
\<close>

lemma search_knot:
  assumes "sorted xs" and "k < length xs"
    and "k + 1 < length xs \<longrightarrow> xs ! k < xs ! (k + 1)"
  shows "binary_search_with_guess (Fin (xs ! k)) (map Fin xs) guess0 = int k"
proof -
  let ?c = "length (takeWhile (\<lambda>y. y \<le> xs ! k) xs)"
  have ne: "xs \<noteq> []" using assms(2) by auto
  have "k < ?c" using takeWhile_le_iff [OF assms(1,2), of "xs ! k"] by simp
  moreover have "?c \<le> k + 1"
  proof (cases "k + 1 < length xs")
    case True
    then have "\<not> xs ! (k + 1) \<le> xs ! k" using assms(3) by simp
    then have "\<not> k + 1 < ?c" using takeWhile_le_iff [OF assms(1) True, of "xs ! k"] by simp
    then show ?thesis by simp
  next
    case False
    then have "length xs \<le> k + 1" by simp
    then show ?thesis using length_takeWhile_le [of "\<lambda>y. y \<le> xs ! k" xs] by linarith
  qed
  ultimately have c: "?c = k + 1" by simp
  have "xs ! 0 \<le> xs ! k" "xs ! k \<le> xs ! (length xs - 1)"
    using assms(1,2) by (auto intro: sorted_nth_mono)
  from binary_search_with_guess_sorted [OF assms(1) ne this] c show ?thesis by simp
qed

text \<open>
  Claim C8, as amended. For finite cumulative times in non-decreasing order,
  interpolating a rate series at its own recorded time \<open>xs ! k\<close> gives back the rate
  \<open>fp ! k\<close> whenever that time is strictly below the next recorded time, or is the last
  one. (When a duration of 0 makes two consecutive times equal, the value at the shared
  time is the rate of the later episode, so the earlier rate is not reproduced.)
\<close>

theorem interp_exact_at_knot:
  assumes "sorted xs" and "length fp = length xs" and "k < length xs"
    and "k + 1 < length xs \<longrightarrow> xs ! k < xs ! (k + 1)"
  shows "interp_at (map Fin xs) fp (Fin (xs ! k)) = fp ! k"
proof (cases "length xs = 1")
  case True
  then have "k = 0" and "fp \<noteq> []" and "xs \<noteq> []" using assms(2,3) by auto
  then show ?thesis
    using True by (simp add: interp_at_def interp_single_def fgt_def hd_map hd_conv_nth)
next
  case False
  have j: "binary_search_with_guess (Fin (xs ! k)) (map Fin xs) 0 = int k"
    using assms(1,3,4) by (rule search_knot)
  show ?thesis
    using False assms(3)
    by (simp add: interp_at_def interp_value_def isnan_def j Let_def feq_def)
qed

theorem interp_exact_at_knot_witness:
  "interp_at [Fin 30, Fin 60, Fin 90] [Fin 20, Fin 30, Fin 0] (Fin 60) = Fin 30 \<and>
   interp_at [Fin 30, Fin 60, Fin 60] [Fin 20, Fin 30, Fin 0] (Fin 60) = Fin 0"
proof -
  have "interp_at (map Fin [30, 60, 90]) [Fin 20, Fin 30, Fin 0] (Fin ([30, 60, 90] ! 1)) =
        [Fin 20, Fin 30, Fin 0] ! 1"
    by (rule interp_exact_at_knot) simp_all
  moreover
  have "interp_at (map Fin [30, 60, 60]) [Fin 20, Fin 30, Fin 0] (Fin ([30, 60, 60] ! 2)) =
        [Fin 20, Fin 30, Fin 0] ! 2"
    by (rule interp_exact_at_knot) simp_all
  ultimately show ?thesis by simp
qed

text \<open>
  The claim as stated fails when a duration is 0: the three episodes have the
  cumulative times 30, 60, 60 and the rates 20, 30, 0, and interpolation at these
  times gives 20, 0, 0.
\<close>

theorem interp_equal_times_counterexample:
  "series three_episodes_timed ''CumulativeTime'' = [Fin 30, Fin 60, Fin 60] \<and>
   rates three_episodes_timed ''TotalVehicles'' = [Fin 20, Fin 30, Fin 0] \<and>
   np_interp (series three_episodes_timed ''CumulativeTime'')
             (series three_episodes_timed ''CumulativeTime'')
             (rates three_episodes_timed ''TotalVehicles'') = Inr [Fin 20, Fin 0, Fin 0]"
  by (simp add: three_episodes_timed_def three_episodes_def frame_eval range_eval time_eval
        upt_rec)

section \<open>Swapping the two policies\<close>

text \<open>
  Claim C9, as amended. For two nonzero finite means \<open>a\<close> and \<open>b\<close>, the
  higher-is-better improvement of \<open>a\<close> over \<open>b\<close> and that of \<open>b\<close> over \<open>a\<close> are finite
  numbers \<open>x\<close> and \<open>y\<close> with \<open>x * b = - (y * a)\<close>: each is taken relative to its own
  baseline. They are opposite numbers exactly when the two means are equal, and for
  means of the same sign they have opposite signs.
\<close>

theorem throughput_improvement_swap:
  assumes "a \<noteq> 0" and "b \<noteq> 0"
  shows "\<exists>x y. throughput_improvement (Fin a) (Fin b) = Fin x \<and>
               throughput_improvement (Fin b) (Fin a) = Fin y \<and>
               x * b = - (y * a) \<and>
               ((x = - y) = (a = b)) \<and>
               (0 < a * b \<longrightarrow> ((0 < x) = (y < 0)))"
proof -
  let ?x = "(a - b) / b * 100" and ?y = "(b - a) / a * 100"
  have x: "throughput_improvement (Fin a) (Fin b) = Fin ?x"
    using assms by (simp add: throughput_improvement_def fsub_def)
  have y: "throughput_improvement (Fin b) (Fin a) = Fin ?y"
    using assms by (simp add: throughput_improvement_def fsub_def)
  have p: "?x * b = - (?y * a)" using assms by (simp add: field_simps)
  have q: "(?x = - ?y) = (a = b)"
  proof
    assume "?x = - ?y"
    then have "(a - b) * a = (a - b) * b" using assms by (simp add: field_simps)
    then have "(a - b) * (a - b) = 0" by (simp add: algebra_simps)
    then show "a = b" by simp
  next
    assume "a = b" then show "?x = - ?y" by simp
  qed
  have r: "0 < a * b \<longrightarrow> ((0 < ?x) = (?y < 0))"
  proof
    assume ab: "0 < a * b"
    then consider "0 < a \<and> 0 < b" | "a < 0 \<and> b < 0" by (auto simp add: zero_less_mult_iff)
    then show "(0 < ?x) = (?y < 0)"
    proof cases
      case 1 then show ?thesis by (simp add: field_simps)
    next
      case 2 then show ?thesis by (simp add: field_simps)
    qed
  qed
  from x y p q r show ?thesis by blast
qed

theorem throughput_improvement_swap_witness:
  "throughput_improvement (Fin 20) (Fin 10) = Fin 100 \<and>
   throughput_improvement (Fin 10) (Fin 20) = Fin (- 50) \<and>
   (100 :: real) * 10 = - (- 50 * 20)"
proof -
  have a: "(20 :: real) \<noteq> 0" and b: "(10 :: real) \<noteq> 0" by simp_all
  from throughput_improvement_swap [OF a b]
  obtain x y where x: "throughput_improvement (Fin 20) (Fin 10) = Fin x"
    and y: "throughput_improvement (Fin 10) (Fin 20) = Fin y"
    and xy: "x * 10 = - (y * 20)"
    by blast
  have "throughput_improvement (Fin 20) (Fin 10) = Fin 100"
    by (simp add: throughput_improvement_def fsub_def)
  with x have "x = 100" by simp
  with xy have "y = - 50" by simp
  with x y \<open>x = 100\<close> show ?thesis by simp
qed

text \<open>
  The claim as stated fails: with the means 20 and 10 the two improvements are 100
  and -50, which are not opposite numbers.
\<close>

theorem throughput_improvement_swap_counterexample:
  "throughput_improvement (Fin 20) (Fin 10) = Fin 100 \<and>
   throughput_improvement (Fin 10) (Fin 20) = Fin (- 50) \<and>
   throughput_improvement (Fin 20) (Fin 10) \<noteq> fneg (throughput_improvement (Fin 10) (Fin 20))"
  by (simp add: throughput_improvement_def fsub_def)

section \<open>The guard of the time-based summary\<close>

text \<open>
  Claim C10. In the table of \<open>generate_time_based_summary\<close>, each of the three
  improvement cells of the \<open>ML Agent\<close> column holds the formatted percentage exactly
  when the mean rate of the static controller compares greater than 0, and is
  otherwise left at the placeholder \<open>-\<close>. The comparison is \<open>> 0\<close>: it holds for a
  finite mean exactly when the mean is positive, so a negative mean, a mean of 0 and a
  NaN mean all keep the placeholder.
\<close>

theorem summary_improvement_guard:
  "entry (generate_time_based_summary ml_episode static_episode
            ml_data static_data ml_time static_time) ''ML Agent'' ! 4 =
     (if fgt (mean_rate static_data ''TotalVehicles_Rate'') (Fin 0)
      then Fmt 1 (throughput_improvement (mean_rate ml_data ''TotalVehicles_Rate'')
                    (mean_rate static_data ''TotalVehicles_Rate'')) ''%''
      else Str ''-'') \<and>
   entry (generate_time_based_summary ml_episode static_episode
            ml_data static_data ml_time static_time) ''ML Agent'' ! 5 =
     (if fgt (mean_rate static_data ''VehiclesWaiting_Rate'') (Fin 0)
      then Fmt 1 (queue_reduction (mean_rate ml_data ''VehiclesWaiting_Rate'')
                    (mean_rate static_data ''VehiclesWaiting_Rate'')) ''%''
      else Str ''-'') \<and>
   entry (generate_time_based_summary ml_episode static_episode
            ml_data static_data ml_time static_time) ''ML Agent'' ! 6 =
     (if fgt (mean_rate static_data ''FuelConsumed_Rate'') (Fin 0)
      then Fmt 1 (fuel_savings (mean_rate ml_data ''FuelConsumed_Rate'')
                    (mean_rate static_data ''FuelConsumed_Rate'')) ''%''
      else Str ''-'') \<and>
   (\<forall>m. fgt (Fin m) (Fin 0) = (0 < m)) \<and> \<not> fgt NaN (Fin 0)"
  by (simp add: generate_time_based_summary_def Let_def entry_set_item_same entry_set_item_other
        entry_summary_data0_ml fgt_def)

end
